theory Spec2Isabelle
  imports Main
begin

section \<open>API key verification (pkg/app/server/apikeyverifier/verifier.go)\<close>

subsection \<open>Errors\<close>

text \<open>
  A Go \<^verbatim>\<open>error\<close> value is modelled by its message and the error it wraps, if any:
  \<^verbatim>\<open>errors.New(s)\<close> wraps nothing, \<^verbatim>\<open>fmt.Errorf("... %w", err)\<close> formats the
  message of \<^verbatim>\<open>err\<close> into its own and keeps \<^verbatim>\<open>err\<close> reachable through Unwrap.
\<close>

datatype error = Error (msg: string) (unwrap: "error option")

definition errors_New :: "string \<Rightarrow> error" where
  "errors_New s = Error s None"

text \<open>The four \<^verbatim>\<open>fmt.Errorf\<close> calls of verifier.go, format strings as in the source.\<close>

definition errNotFound :: "string \<Rightarrow> error \<Rightarrow> error" where
  \<comment> \<open>line 73\<close>
  "errNotFound keyID err =
     Error (''unable to find API key '' @ keyID @ '' from datastore, '' @ msg err) (Some err)"

definition errDisabled :: "string \<Rightarrow> error" where
  \<comment> \<open>line 90\<close>
  "errDisabled ident = Error (''the api key '' @ ident @ '' was already disabled'') None"

definition errInvalidSecret :: "string \<Rightarrow> error \<Rightarrow> error" where
  \<comment> \<open>line 94\<close>
  "errInvalidSecret ident err = Error (''invalid api key '' @ ident @ '': '' @ msg err) (Some err)"

definition errLastUsedWrite :: "string \<Rightarrow> error \<Rightarrow> error" where
  \<comment> \<open>line 98\<close>
  "errLastUsedWrite ident err =
     Error (''unable to update the time API key '' @ ident @ '' was last used, '' @ msg err)
       (Some err)"

subsection \<open>Data\<close>

text \<open>
  Modelled from the spec: the type \<^verbatim>\<open>model.APIKey\<close> is declared outside the two source
  files. The spec gives a key record an id, a project id, the disabled flag and the
  material its secret comparison works on; the verifier reads only \<^verbatim>\<open>Disabled\<close>.
\<close>

record APIKey =
  APIKey_Id :: string
  ProjectId :: string
  Disabled :: bool
  KeyHash :: string

text \<open>
  Every call the verifier makes on one of its collaborators, in the order it makes them.
  The list of these calls is what a mocked dependency's call counter observes.
\<close>

datatype call =
    CacheGet string
  | StoreGet string
  | CachePut string APIKey
  | LoggerWarn string error
  | CompareKeyCall APIKey string
  | LastUsedPut string int

text \<open>
  The \<^verbatim>\<open>Verifier\<close> struct together with the collaborators its fields point to.
  The two caches and the store are interfaces in the source, so each answer they can give
  is a field here:
  \<^item> \<open>apiKeyCache\<close> is what \<^verbatim>\<open>apiKeyCache.Get\<close> answers for an identifier (a record, or
    any error), \<open>apiKeyCachePutErr\<close> what \<^verbatim>\<open>apiKeyCache.Put\<close> answers;
  \<^item> \<open>apiKeyStore\<close> is what \<^verbatim>\<open>apiKeyStore.Get\<close> answers;
  \<^item> \<open>apiKeyLastUsedCache\<close> is the content of the hash under the fixed namespace
    \<^verbatim>\<open>HASHKEY:PIPED:API_KEYS\<close>, \<open>apiKeyLastUsedCachePutErr\<close> what its Put answers;
  \<^item> \<open>ExtractAPIKeyID\<close> and \<open>CompareKey\<close> are the two functions of package
    \<^verbatim>\<open>model\<close> the verifier calls; they are parameters;
  \<^item> \<open>clock\<close> is the unix time, and every call on a collaborator takes \<open>latency\<close>
    seconds, a natural number: the clock does not run backwards;
  \<^item> \<open>calls\<close> is the log of the calls made so far.

  A Get that answers without error answers with a record: the nil pointer and a cached
  item of another type, on which the source would panic, are excluded by the types.
\<close>

record env =
  ExtractAPIKeyID :: "string \<Rightarrow> error + string"
  CompareKey :: "APIKey \<Rightarrow> string \<Rightarrow> error option"
  apiKeyCache :: "string \<Rightarrow> error + APIKey"
  apiKeyCachePutErr :: "string \<Rightarrow> APIKey \<Rightarrow> error option"
  apiKeyStore :: "string \<Rightarrow> error + APIKey"
  apiKeyLastUsedCache :: "string \<rightharpoonup> int"
  apiKeyLastUsedCachePutErr :: "string \<Rightarrow> int \<Rightarrow> error option"
  clock :: int
  latency :: "call \<Rightarrow> nat"
  calls :: "call list"

subsection \<open>The collaborators' operations\<close>

text \<open>
  Modelled from the spec: the implementations of \<^verbatim>\<open>cache.Cache\<close> (the in-memory cache
  and the hash cache on the distributed store) and of the key store are outside the two
  source files. Of a cache the spec says that it has the two operations Get and Put and
  that a Put that succeeds makes the value visible to the Gets that follow; so a Put
  that answers without error stores the value under the key, and here one that answers
  with an error stores nothing. Every operation is entered in the call log and takes
  its latency.
\<close>

definition called :: "call \<Rightarrow> env \<Rightarrow> env" where
  "called c w = w\<lparr>clock := clock w + int (latency w c), calls := calls w @ [c]\<rparr>"

definition cache_Get :: "env \<Rightarrow> string \<Rightarrow> (error + APIKey) \<times> env" where
  "cache_Get w k = (apiKeyCache w k, called (CacheGet k) w)"

definition cache_Put :: "env \<Rightarrow> string \<Rightarrow> APIKey \<Rightarrow> error option \<times> env" where
  "cache_Put w k v =
     (let w' = called (CachePut k v) w in
      case apiKeyCachePutErr w k v of
        Some e \<Rightarrow> (Some e, w')
      | None \<Rightarrow> (None, w'\<lparr>apiKeyCache := (apiKeyCache w')(k := Inr v)\<rparr>))"

definition store_Get :: "env \<Rightarrow> string \<Rightarrow> (error + APIKey) \<times> env" where
  "store_Get w k = (apiKeyStore w k, called (StoreGet k) w)"

definition logger_Warn :: "env \<Rightarrow> string \<Rightarrow> error \<Rightarrow> env" where
  "logger_Warn w m e = called (LoggerWarn m e) w"

definition model_CompareKey :: "env \<Rightarrow> APIKey \<Rightarrow> string \<Rightarrow> error option \<times> env" where
  "model_CompareKey w apiKey key = (CompareKey w apiKey key, called (CompareKeyCall apiKey key) w)"

definition time_Now_Unix :: "env \<Rightarrow> int" where
  "time_Now_Unix w = clock w"

definition lastUsed_Put :: "env \<Rightarrow> string \<Rightarrow> int \<Rightarrow> error option \<times> env" where
  "lastUsed_Put w k t =
     (let w' = called (LastUsedPut k t) w in
      case apiKeyLastUsedCachePutErr w k t of
        Some e \<Rightarrow> (Some e, w')
      | None \<Rightarrow> (None, w'\<lparr>apiKeyLastUsedCache := (apiKeyLastUsedCache w')(k \<mapsto> t)\<rparr>))"

subsection \<open>checkAPIKey and Verify\<close>

definition checkAPIKey :: "env \<Rightarrow> APIKey \<Rightarrow> string \<Rightarrow> string \<Rightarrow> error option \<times> env" where
  "checkAPIKey w apiKey ident key =
     (if Disabled apiKey then (Some (errDisabled ident), w)
      else
        case model_CompareKey w apiKey key of
          (Some err, w1) \<Rightarrow> (Some (errInvalidSecret ident err), w1)
        | (None, w1) \<Rightarrow>
            (let now = time_Now_Unix w1 in
             case lastUsed_Put w1 ident now of
               (Some err, w2) \<Rightarrow> (Some (errLastUsedWrite ident err), w2)
             | (None, w2) \<Rightarrow> (None, w2)))"

definition Verify :: "env \<Rightarrow> string \<Rightarrow> (error + APIKey) \<times> env" where
  "Verify w key =
     (case ExtractAPIKeyID w key of
        Inl err \<Rightarrow> (Inl err, w)
      | Inr keyID \<Rightarrow>
          (case cache_Get w keyID of
             (Inr apiKey, w1) \<Rightarrow>
               (case checkAPIKey w1 apiKey keyID key of
                  (Some err, w2) \<Rightarrow> (Inl err, w2)
                | (None, w2) \<Rightarrow> (Inr apiKey, w2))
           | (Inl _, w1) \<Rightarrow>
               (case store_Get w1 keyID of
                  (Inl err, w2) \<Rightarrow> (Inl (errNotFound keyID err), w2)
                | (Inr apiKey, w2) \<Rightarrow>
                    (let w3 = (case cache_Put w2 keyID apiKey of
                                 (Some err, w') \<Rightarrow>
                                   logger_Warn w' ''unable to store API key in memory cache'' err
                               | (None, w') \<Rightarrow> w')
                     in case checkAPIKey w3 apiKey keyID key of
                          (Some err, w4) \<Rightarrow> (Inl err, w4)
                        | (None, w4) \<Rightarrow> (Inr apiKey, w4)))))"

subsection \<open>Vocabulary of the properties\<close>

text \<open>
  The record an identifier resolves to: the local cache's answer, and the backing
  store's when the local cache answers with an error.
\<close>

definition resolves :: "env \<Rightarrow> string \<Rightarrow> APIKey option" where
  "resolves w keyID =
     (case apiKeyCache w keyID of
        Inr k \<Rightarrow> Some k
      | Inl _ \<Rightarrow> (case apiKeyStore w keyID of Inr k \<Rightarrow> Some k | Inl _ \<Rightarrow> None))"

text \<open>The calls a run of \<open>Verify\<close> adds to the log.\<close>

definition new_calls :: "env \<Rightarrow> string \<Rightarrow> call list" where
  "new_calls w key = drop (length (calls w)) (calls (snd (Verify w key)))"

fun is_LastUsedPut :: "call \<Rightarrow> bool" where
  "is_LastUsedPut (LastUsedPut _ _) = True"
| "is_LastUsedPut _ = False"

text \<open>
  The call passes validation: an identifier is extracted, it resolves to a record, the
  record is not disabled and its comparison accepts the raw key.
\<close>

definition passes_validation :: "env \<Rightarrow> string \<Rightarrow> bool" where
  "passes_validation w key =
     (case ExtractAPIKeyID w key of
        Inl _ \<Rightarrow> False
      | Inr keyID \<Rightarrow>
          (case resolves w keyID of
             None \<Rightarrow> False
           | Some k \<Rightarrow> \<not> Disabled k \<and> CompareKey w k key = None))"

section \<open>The live state snapshot reader (pkg/app/api/applicationlivestatestore/filestore.go)\<close>

text \<open>
  Modelled from the spec: \<^verbatim>\<open>filestore.Store\<close> and \<^verbatim>\<open>filestore.Object\<close> are declared
  outside the two source files. The reader uses \<^verbatim>\<open>GetObject\<close> and the object's
  \<^verbatim>\<open>Content\<close>; \<open>PutObject\<close> stands for the store's write operation, which the
  reader never calls. \<open>backend\<close> is what \<^verbatim>\<open>GetObject\<close> answers for a path,
  \<open>backend_calls\<close> the calls made on the blob store so far.
\<close>

record Object =
  Path :: string
  Content :: string

datatype backend_call = GetObject string | PutObject string string

record applicationLiveStateFileStore =
  backend :: "string \<Rightarrow> error + Object"
  backend_calls :: "backend_call list"

fun is_PutObject :: "backend_call \<Rightarrow> bool" where
  "is_PutObject (PutObject _ _) = True"
| "is_PutObject _ = False"

definition applicationLiveStatePath :: "string \<Rightarrow> string" where
  "applicationLiveStatePath applicationID = ''application-live-state/'' @ applicationID @ ''.json''"

definition backend_GetObject ::
  "applicationLiveStateFileStore \<Rightarrow> string \<Rightarrow> (error + Object) \<times> applicationLiveStateFileStore" where
  "backend_GetObject f path = (backend f path, f\<lparr>backend_calls := backend_calls f @ [GetObject path]\<rparr>)"

text \<open>
  \<^verbatim>\<open>json.Unmarshal\<close> into a snapshot is a parameter: a function from the document to a
  snapshot of any type \<open>'s\<close>, or an error.
\<close>

definition filestore_Get ::
  "(string \<Rightarrow> error + 's) \<Rightarrow> applicationLiveStateFileStore \<Rightarrow> string
     \<Rightarrow> (error + 's) \<times> applicationLiveStateFileStore" where
  "filestore_Get json_Unmarshal f applicationID =
     (let path = applicationLiveStatePath applicationID in
      case backend_GetObject f path of
        (Inl err, f1) \<Rightarrow> (Inl err, f1)
      | (Inr obj, f1) \<Rightarrow>
          (case json_Unmarshal (Content obj) of
             Inl err \<Rightarrow> (Inl err, f1)
           | Inr s \<Rightarrow> (Inr s, f1)))"

definition filestore_Put ::
  "applicationLiveStateFileStore \<Rightarrow> string \<Rightarrow> 's
     \<Rightarrow> error option \<times> applicationLiveStateFileStore" where
  "filestore_Put f applicationID alss = (Some (errors_New ''unimplemented''), f)"

section \<open>Concrete deployments\<close>

text \<open>
  The scenario of the specification: raw key \<^verbatim>\<open>k1.s3cr3t\<close>, identifier \<^verbatim>\<open>k1\<close>, a
  store holding the enabled record of project \<^verbatim>\<open>p1\<close>, both caches empty, unix time
  1000, one second per call. The store knows no key \<^verbatim>\<open>k2\<close>.
\<close>

definition rec_k1 :: APIKey where
  "rec_k1 = \<lparr>APIKey_Id = ''k1'', ProjectId = ''p1'', Disabled = False, KeyHash = ''h(s3cr3t)''\<rparr>"

definition scenario :: env where
  "scenario =
     \<lparr>ExtractAPIKeyID =
        (\<lambda>key. if key = ''k1.s3cr3t'' \<or> key = ''k1.wrong'' then Inr ''k1''
               else if key = ''k2.s3cr3t'' then Inr ''k2''
               else Inl (errors_New ''malformed api key'')),
      CompareKey =
        (\<lambda>k key. if key = ''k1.s3cr3t'' \<and> KeyHash k = ''h(s3cr3t)'' then None
                 else Some (errors_New ''wrong api key'')),
      apiKeyCache = (\<lambda>_. Inl (errors_New ''not found'')),
      apiKeyCachePutErr = (\<lambda>_ _. None),
      apiKeyStore = (\<lambda>i. if i = ''k1'' then Inr rec_k1 else Inl (errors_New ''not found'')),
      apiKeyLastUsedCache = Map.empty,
      apiKeyLastUsedCachePutErr = (\<lambda>_ _. None),
      clock = 1000,
      latency = (\<lambda>_. 1),
      calls = []\<rparr>"

text \<open>The same deployment after the record was disabled in the store.\<close>

definition scenario_disabled :: env where
  "scenario_disabled = scenario\<lparr>apiKeyStore := (\<lambda>_. Inr (rec_k1\<lparr>Disabled := True\<rparr>))\<rparr>"

text \<open>The same deployment with a distributed cache that rejects every write.\<close>

definition scenario_redis_down :: env where
  "scenario_redis_down =
     scenario\<lparr>apiKeyLastUsedCachePutErr := (\<lambda>_ _. Some (errors_New ''redis down''))\<rparr>"

text \<open>The same deployment with a local cache that rejects every write.\<close>

definition scenario_cache_full :: env where
  "scenario_cache_full = scenario\<lparr>apiKeyCachePutErr := (\<lambda>_ _. Some (errors_New ''cache full''))\<rparr>"

text \<open>Both caches reject every write.\<close>

definition scenario_both_down :: env where
  "scenario_both_down =
     scenario_cache_full\<lparr>apiKeyLastUsedCachePutErr := (\<lambda>_ _. Some (errors_New ''redis down''))\<rparr>"

text \<open>A local cache whose Get fails with an error other than not-found.\<close>

definition scenario_cache_broken :: env where
  "scenario_cache_broken = scenario\<lparr>apiKeyCache := (\<lambda>_. Inl (errors_New ''type mismatch''))\<rparr>"

text \<open>A blob store holding one snapshot document.\<close>

definition blobs :: applicationLiveStateFileStore where
  "blobs =
     \<lparr>backend =
        (\<lambda>p. if p = ''application-live-state/app-1.json''
              then Inr \<lparr>Path = p, Content = ''{}''\<rparr>
              else Inl (errors_New ''object not found'')),
      backend_calls = []\<rparr>"

section \<open>Properties of the verifier\<close>

lemmas ops = Verify_def checkAPIKey_def cache_Get_def cache_Put_def store_Get_def
  logger_Warn_def model_CompareKey_def time_Now_Unix_def lastUsed_Put_def called_def

lemmas scenarios = scenario_def scenario_disabled_def scenario_redis_down_def
  scenario_cache_full_def scenario_both_down_def scenario_cache_broken_def rec_k1_def

text \<open>
  C5. A raw key from which no identifier can be extracted makes \<open>Verify\<close> fail with the
  extraction's error (MalformedKey) and leaves the whole environment as it was: the call
  log does not grow, so neither the local cache, nor the backing store, nor the
  distributed cache has been called.
\<close>

theorem Verify_malformed_no_access:
  assumes "ExtractAPIKeyID w key = Inl e"
  shows "Verify w key = (Inl e, w) \<and> calls (snd (Verify w key)) = calls w"
  using assms by (simp add: Verify_def)

theorem Verify_malformed_no_access_witness:
  "ExtractAPIKeyID scenario ''nodot'' = Inl (errors_New ''malformed api key'')
   \<and> Verify scenario ''nodot'' = (Inl (errors_New ''malformed api key''), scenario)
   \<and> calls (snd (Verify scenario ''nodot'')) = []"
proof -
  have h: "ExtractAPIKeyID scenario ''nodot'' = Inl (errors_New ''malformed api key'')"
    by (simp add: scenario_def)
  have c: "calls scenario = []"
    by (simp add: scenario_def)
  from Verify_malformed_no_access [OF h] h c show ?thesis by simp
qed

subsection \<open>The shape of a run\<close>

lemma Verify_calls_append: "calls (snd (Verify w key)) = calls w @ new_calls w key"
  by (auto simp: ops new_calls_def Let_def split: sum.splits option.splits)

text \<open>
  A call that passes validation ends with the secret comparison followed by the one
  last-used write, stamped with a time not before the call's start; what the distributed
  cache answers to that write decides the result.
\<close>

lemma Verify_validated:
  assumes "ExtractAPIKeyID w key = Inr keyID"
    and "resolves w keyID = Some k"
    and "\<not> Disabled k"
    and "CompareKey w k key = None"
  shows "\<exists>t pre. clock w \<le> t
      \<and> new_calls w key = pre @ [CompareKeyCall k key, LastUsedPut keyID t]
      \<and> \<not> list_ex is_LastUsedPut pre
      \<and> (case apiKeyLastUsedCachePutErr w keyID t of
            None \<Rightarrow> fst (Verify w key) = Inr k
              \<and> apiKeyLastUsedCache (snd (Verify w key)) = (apiKeyLastUsedCache w)(keyID \<mapsto> t)
          | Some e \<Rightarrow> fst (Verify w key) = Inl (errLastUsedWrite keyID e)
              \<and> apiKeyLastUsedCache (snd (Verify w key)) = apiKeyLastUsedCache w)"
proof (cases "apiKeyCache w keyID")
  case (Inr k')
  with assms(2) have hit: "apiKeyCache w keyID = Inr k"
    by (simp add: resolves_def)
  let ?t = "clock w + int (latency w (CacheGet keyID)) + int (latency w (CompareKeyCall k key))"
  show ?thesis
    apply (rule exI [of _ ?t])
    apply (rule exI [of _ "[CacheGet keyID]"])
    using assms(1,3,4) hit
    by (simp add: ops new_calls_def Let_def split: option.splits)
next
  case (Inl ce)
  with assms(2) have st: "apiKeyStore w keyID = Inr k"
    by (simp add: resolves_def split: sum.splits)
  show ?thesis
  proof (cases "apiKeyCachePutErr w keyID k")
    case None
    let ?t = "clock w + int (latency w (CacheGet keyID)) + int (latency w (StoreGet keyID))
               + int (latency w (CachePut keyID k)) + int (latency w (CompareKeyCall k key))"
    show ?thesis
      apply (rule exI [of _ ?t])
      apply (rule exI [of _ "[CacheGet keyID, StoreGet keyID, CachePut keyID k]"])
      using assms(1,3,4) Inl st None
      by (simp add: ops new_calls_def Let_def split: option.splits)
  next
    case (Some pe)
    let ?m = "LoggerWarn ''unable to store API key in memory cache'' pe"
    let ?t = "clock w + int (latency w (CacheGet keyID)) + int (latency w (StoreGet keyID))
               + int (latency w (CachePut keyID k)) + int (latency w ?m)
               + int (latency w (CompareKeyCall k key))"
    show ?thesis
      apply (rule exI [of _ ?t])
      apply (rule exI [of _ "[CacheGet keyID, StoreGet keyID, CachePut keyID k, ?m]"])
      using assms(1,3,4) Inl st Some
      by (simp add: ops new_calls_def Let_def split: option.splits)
  qed
qed

text \<open>A call that does not pass validation fails and writes nothing.\<close>

lemma Verify_not_validated:
  assumes "\<not> passes_validation w key"
  shows "\<not> list_ex is_LastUsedPut (new_calls w key) \<and> isl (fst (Verify w key))
     \<and> apiKeyLastUsedCache (snd (Verify w key)) = apiKeyLastUsedCache w"
  using assms
  by (auto simp: ops passes_validation_def new_calls_def resolves_def Let_def
      split: sum.splits option.splits)

text \<open>The scenario's two runs, evaluated.\<close>

lemma scenario_facts:
  "ExtractAPIKeyID scenario ''k1.s3cr3t'' = Inr ''k1''"
  "ExtractAPIKeyID scenario ''k1.wrong'' = Inr ''k1''"
  "ExtractAPIKeyID scenario ''k2.s3cr3t'' = Inr ''k2''"
  "resolves scenario ''k1'' = Some rec_k1"
  "\<not> Disabled rec_k1"
  "CompareKey scenario rec_k1 ''k1.s3cr3t'' = None"
  "CompareKey scenario rec_k1 ''k1.wrong'' = Some (errors_New ''wrong api key'')"
  "apiKeyCache scenario ''k1'' = Inl (errors_New ''not found'')"
  "apiKeyStore scenario ''k1'' = Inr rec_k1"
  "apiKeyStore scenario ''k2'' = Inl (errors_New ''not found'')"
  "clock scenario = 1000"
  "calls scenario = []"
  by (simp_all add: scenarios resolves_def)

subsection \<open>Successful verification\<close>

text \<open>
  C1. When the identifier extracted from the raw key resolves, from the local cache or
  from the backing store, to a record that is not disabled and whose comparison accepts
  the raw key, and the distributed cache accepts the last-used write the call makes,
  \<open>Verify\<close> returns that record, and the distributed last-used entry under the
  identifier holds a unix time not before the time at which the call was issued.
\<close>

theorem Verify_success_records_last_used:
  assumes "ExtractAPIKeyID w key = Inr keyID"
    and "resolves w keyID = Some k"
    and "\<not> Disabled k"
    and "CompareKey w k key = None"
    and "\<forall>t. LastUsedPut keyID t \<in> set (new_calls w key)
           \<longrightarrow> apiKeyLastUsedCachePutErr w keyID t = None"
  shows "fst (Verify w key) = Inr k
     \<and> (\<exists>t. clock w \<le> t \<and> apiKeyLastUsedCache (snd (Verify w key)) keyID = Some t)"
proof -
  from Verify_validated [OF assms(1-4)] obtain t pre where
    t: "clock w \<le> t" and
    n: "new_calls w key = pre @ [CompareKeyCall k key, LastUsedPut keyID t]" and
    r: "case apiKeyLastUsedCachePutErr w keyID t of
            None \<Rightarrow> fst (Verify w key) = Inr k
              \<and> apiKeyLastUsedCache (snd (Verify w key)) = (apiKeyLastUsedCache w)(keyID \<mapsto> t)
          | Some e \<Rightarrow> fst (Verify w key) = Inl (errLastUsedWrite keyID e)
              \<and> apiKeyLastUsedCache (snd (Verify w key)) = apiKeyLastUsedCache w"
    by blast
  from n assms(5) have "apiKeyLastUsedCachePutErr w keyID t = None"
    by simp
  with r t show ?thesis by auto
qed

theorem Verify_success_records_last_used_witness:
  "ExtractAPIKeyID scenario ''k1.s3cr3t'' = Inr ''k1''
   \<and> resolves scenario ''k1'' = Some rec_k1
   \<and> \<not> Disabled rec_k1
   \<and> CompareKey scenario rec_k1 ''k1.s3cr3t'' = None
   \<and> (\<forall>t. apiKeyLastUsedCachePutErr scenario ''k1'' t = None)
   \<and> fst (Verify scenario ''k1.s3cr3t'') = Inr rec_k1
   \<and> (\<exists>t. 1000 \<le> t
         \<and> apiKeyLastUsedCache (snd (Verify scenario ''k1.s3cr3t'')) ''k1'' = Some t)"
proof -
  have p: "\<forall>t. apiKeyLastUsedCachePutErr scenario ''k1'' t = None"
    by (simp add: scenarios)
  then have p': "\<forall>t. LastUsedPut ''k1'' t \<in> set (new_calls scenario ''k1.s3cr3t'')
           \<longrightarrow> apiKeyLastUsedCachePutErr scenario ''k1'' t = None"
    by simp
  from Verify_success_records_last_used
         [OF scenario_facts(1) scenario_facts(4) scenario_facts(5) scenario_facts(6) p']
       p scenario_facts
  show ?thesis by simp
qed

subsection \<open>Validation failures\<close>

text \<open>
  C2, as stated: a record whose comparison rejects the raw key makes \<open>Verify\<close> fail
  with InvalidSecret whatever its disabled flag. The disabled check of
  \<^verbatim>\<open>checkAPIKey\<close> comes first: for the disabled record of the scenario and a raw key
  the comparison rejects, the call fails with Disabled and the comparison is never
  called.
\<close>

theorem Verify_invalid_secret_disabled_counterexample:
  "ExtractAPIKeyID scenario_disabled ''k1.wrong'' = Inr ''k1''
   \<and> resolves scenario_disabled ''k1'' = Some (rec_k1\<lparr>Disabled := True\<rparr>)
   \<and> CompareKey scenario_disabled (rec_k1\<lparr>Disabled := True\<rparr>) ''k1.wrong''
       = Some (errors_New ''wrong api key'')
   \<and> fst (Verify scenario_disabled ''k1.wrong'') = Inl (errDisabled ''k1'')
   \<and> fst (Verify scenario_disabled ''k1.wrong'')
       \<noteq> Inl (errInvalidSecret ''k1'' (errors_New ''wrong api key''))
   \<and> new_calls scenario_disabled ''k1.wrong''
       = [CacheGet ''k1'', StoreGet ''k1'', CachePut ''k1'' (rec_k1\<lparr>Disabled := True\<rparr>)]"
  by (simp add: ops scenarios resolves_def new_calls_def errors_New_def errDisabled_def
      errInvalidSecret_def Let_def)

text \<open>
  C2, amended: a record that is not disabled and whose comparison rejects the raw key
  makes \<open>Verify\<close> fail with InvalidSecret, the error of line 94 that names the
  identifier and wraps the comparison's error; nothing is written to the distributed
  cache.
\<close>

theorem Verify_invalid_secret:
  assumes "ExtractAPIKeyID w key = Inr keyID"
    and "resolves w keyID = Some k"
    and "\<not> Disabled k"
    and "CompareKey w k key = Some e"
  shows "fst (Verify w key) = Inl (errInvalidSecret keyID e)
     \<and> apiKeyLastUsedCache (snd (Verify w key)) = apiKeyLastUsedCache w
     \<and> \<not> list_ex is_LastUsedPut (new_calls w key)"
  using assms
  by (auto simp: ops new_calls_def resolves_def Let_def split: sum.splits option.splits)

theorem Verify_invalid_secret_witness:
  "ExtractAPIKeyID scenario ''k1.wrong'' = Inr ''k1''
   \<and> resolves scenario ''k1'' = Some rec_k1
   \<and> \<not> Disabled rec_k1
   \<and> CompareKey scenario rec_k1 ''k1.wrong'' = Some (errors_New ''wrong api key'')
   \<and> fst (Verify scenario ''k1.wrong'')
       = Inl (Error ''invalid api key k1: wrong api key'' (Some (Error ''wrong api key'' None)))
   \<and> apiKeyLastUsedCache (snd (Verify scenario ''k1.wrong'')) ''k1'' = None"
  using Verify_invalid_secret
          [OF scenario_facts(2) scenario_facts(4) scenario_facts(5) scenario_facts(7)]
        scenario_facts
  by (simp add: errInvalidSecret_def errors_New_def scenario_def)

text \<open>
  C3. A record whose disabled flag is set makes \<open>Verify\<close> fail with Disabled, the
  error of line 90 that names the identifier, whether or not its comparison would accept
  the raw key: the comparison is not among the calls made, and nothing is written to the
  distributed cache.
\<close>

theorem Verify_disabled:
  assumes "ExtractAPIKeyID w key = Inr keyID"
    and "resolves w keyID = Some k"
    and "Disabled k"
  shows "fst (Verify w key) = Inl (errDisabled keyID)
     \<and> CompareKeyCall k key \<notin> set (new_calls w key)
     \<and> \<not> list_ex is_LastUsedPut (new_calls w key)
     \<and> apiKeyLastUsedCache (snd (Verify w key)) = apiKeyLastUsedCache w"
  using assms
  by (auto simp: ops new_calls_def resolves_def Let_def split: sum.splits option.splits)

theorem Verify_disabled_witness:
  "ExtractAPIKeyID scenario_disabled ''k1.s3cr3t'' = Inr ''k1''
   \<and> resolves scenario_disabled ''k1'' = Some (rec_k1\<lparr>Disabled := True\<rparr>)
   \<and> Disabled (rec_k1\<lparr>Disabled := True\<rparr>)
   \<and> CompareKey scenario_disabled (rec_k1\<lparr>Disabled := True\<rparr>) ''k1.s3cr3t'' = None
   \<and> fst (Verify scenario_disabled ''k1.s3cr3t'')
       = Inl (Error ''the api key k1 was already disabled'' None)
   \<and> apiKeyLastUsedCache (snd (Verify scenario_disabled ''k1.s3cr3t'')) ''k1'' = None"
proof -
  have h1: "ExtractAPIKeyID scenario_disabled ''k1.s3cr3t'' = Inr ''k1''"
    by (simp add: scenarios)
  have h2: "resolves scenario_disabled ''k1'' = Some (rec_k1\<lparr>Disabled := True\<rparr>)"
    by (simp add: scenarios resolves_def errors_New_def)
  have h3: "Disabled (rec_k1\<lparr>Disabled := True\<rparr>)"
    by simp
  have h4: "CompareKey scenario_disabled (rec_k1\<lparr>Disabled := True\<rparr>) ''k1.s3cr3t'' = None"
    by (simp add: scenarios)
  have h5: "apiKeyLastUsedCache scenario_disabled ''k1'' = None"
    by (simp add: scenarios)
  from Verify_disabled [OF h1 h2 h3] h1 h2 h3 h4 h5 show ?thesis
    by (simp add: errDisabled_def)
qed

subsection \<open>The last-used write\<close>

text \<open>
  C4. In every call of \<open>Verify\<close> the distributed last-used cache is written exactly
  when the call passes validation (an identifier is extracted, it resolves to a record,
  the record is not disabled and its comparison accepts the raw key). So a call that
  returns a record has made the write; a call that does not pass validation, which is
  every call failing with MalformedKey, NotFound, Disabled or InvalidSecret, fails
  without it; and when the write is made it is the last call of the run, made once,
  directly after the successful comparison of a record that is not disabled.
\<close>

theorem Verify_last_used_write_iff_validated:
  "calls (snd (Verify w key)) = calls w @ new_calls w key
   \<and> (list_ex is_LastUsedPut (new_calls w key) \<longleftrightarrow> passes_validation w key)
   \<and> (\<not> isl (fst (Verify w key)) \<longrightarrow> list_ex is_LastUsedPut (new_calls w key))
   \<and> (\<not> passes_validation w key \<longrightarrow> isl (fst (Verify w key)))
   \<and> (list_ex is_LastUsedPut (new_calls w key) \<longrightarrow>
        (\<exists>pre k keyID t. new_calls w key = pre @ [CompareKeyCall k key, LastUsedPut keyID t]
           \<and> \<not> list_ex is_LastUsedPut pre \<and> \<not> Disabled k \<and> CompareKey w k key = None))"
proof (cases "passes_validation w key")
  case True
  then obtain keyID k where
    h: "ExtractAPIKeyID w key = Inr keyID" "resolves w keyID = Some k"
       "\<not> Disabled k" "CompareKey w k key = None"
    by (auto simp: passes_validation_def split: sum.splits option.splits)
  from Verify_validated [OF h] obtain t pre where
    n: "new_calls w key = pre @ [CompareKeyCall k key, LastUsedPut keyID t]" and
    p: "\<not> list_ex is_LastUsedPut pre"
    by blast
  from n have "list_ex is_LastUsedPut (new_calls w key)"
    by (simp add: list_ex_iff)
  with True n p h Verify_calls_append show ?thesis
    by blast
next
  case False
  with Verify_not_validated [OF False] Verify_calls_append show ?thesis
    by blast
qed

theorem Verify_last_used_write_iff_validated_witness:
  "passes_validation scenario ''k1.s3cr3t''
   \<and> \<not> isl (fst (Verify scenario ''k1.s3cr3t''))
   \<and> list_ex is_LastUsedPut (new_calls scenario ''k1.s3cr3t'')
   \<and> (\<exists>pre k keyID t.
         new_calls scenario ''k1.s3cr3t'' = pre @ [CompareKeyCall k ''k1.s3cr3t'', LastUsedPut keyID t]
         \<and> \<not> list_ex is_LastUsedPut pre \<and> \<not> Disabled k
         \<and> CompareKey scenario k ''k1.s3cr3t'' = None)
   \<and> \<not> passes_validation scenario ''k1.wrong''
   \<and> isl (fst (Verify scenario ''k1.wrong''))
   \<and> \<not> list_ex is_LastUsedPut (new_calls scenario ''k1.wrong'')"
proof -
  have a: "passes_validation scenario ''k1.s3cr3t''"
    by (simp add: passes_validation_def scenario_facts)
  have b: "\<not> passes_validation scenario ''k1.wrong''"
    by (simp add: passes_validation_def scenario_facts)
  have c: "\<not> isl (fst (Verify scenario ''k1.s3cr3t''))"
    by (simp add: ops scenarios errors_New_def Let_def)
  from Verify_last_used_write_iff_validated [of scenario "''k1.s3cr3t''"]
       Verify_last_used_write_iff_validated [of scenario "''k1.wrong''"] a b c
  show ?thesis by blast
qed

text \<open>
  C7. When the record passes the disabled check and the comparison but the distributed
  cache answers the last-used write with an error, \<open>Verify\<close> returns no record: it
  fails with the error of line 98, which names the identifier and wraps the cache's
  error.
\<close>

theorem Verify_last_used_write_failure_fatal:
  assumes "ExtractAPIKeyID w key = Inr keyID"
    and "resolves w keyID = Some k"
    and "\<not> Disabled k"
    and "CompareKey w k key = None"
    and "\<forall>t. LastUsedPut keyID t \<in> set (new_calls w key)
           \<longrightarrow> apiKeyLastUsedCachePutErr w keyID t \<noteq> None"
  shows "(\<exists>e. fst (Verify w key) = Inl (errLastUsedWrite keyID e))
     \<and> fst (Verify w key) \<noteq> Inr k"
proof -
  from Verify_validated [OF assms(1-4)] obtain t pre where
    n: "new_calls w key = pre @ [CompareKeyCall k key, LastUsedPut keyID t]" and
    r: "case apiKeyLastUsedCachePutErr w keyID t of
            None \<Rightarrow> fst (Verify w key) = Inr k
              \<and> apiKeyLastUsedCache (snd (Verify w key)) = (apiKeyLastUsedCache w)(keyID \<mapsto> t)
          | Some e \<Rightarrow> fst (Verify w key) = Inl (errLastUsedWrite keyID e)
              \<and> apiKeyLastUsedCache (snd (Verify w key)) = apiKeyLastUsedCache w"
    by blast
  from n assms(5) obtain e where "apiKeyLastUsedCachePutErr w keyID t = Some e"
    by auto
  with r show ?thesis by auto
qed

theorem Verify_last_used_write_failure_fatal_witness:
  "ExtractAPIKeyID scenario_redis_down ''k1.s3cr3t'' = Inr ''k1''
   \<and> resolves scenario_redis_down ''k1'' = Some rec_k1
   \<and> \<not> Disabled rec_k1
   \<and> CompareKey scenario_redis_down rec_k1 ''k1.s3cr3t'' = None
   \<and> (\<forall>t. apiKeyLastUsedCachePutErr scenario_redis_down ''k1'' t \<noteq> None)
   \<and> (\<exists>e. fst (Verify scenario_redis_down ''k1.s3cr3t'') = Inl (errLastUsedWrite ''k1'' e))
   \<and> fst (Verify scenario_redis_down ''k1.s3cr3t'') \<noteq> Inr rec_k1"
proof -
  have h1: "ExtractAPIKeyID scenario_redis_down ''k1.s3cr3t'' = Inr ''k1''"
    by (simp add: scenarios)
  have h2: "resolves scenario_redis_down ''k1'' = Some rec_k1"
    by (simp add: scenarios resolves_def errors_New_def)
  have h3: "\<not> Disabled rec_k1"
    by (simp add: scenarios)
  have h4: "CompareKey scenario_redis_down rec_k1 ''k1.s3cr3t'' = None"
    by (simp add: scenarios)
  have p: "\<forall>t. apiKeyLastUsedCachePutErr scenario_redis_down ''k1'' t \<noteq> None"
    by (simp add: scenarios)
  then have h5: "\<forall>t. LastUsedPut ''k1'' t \<in> set (new_calls scenario_redis_down ''k1.s3cr3t'')
           \<longrightarrow> apiKeyLastUsedCachePutErr scenario_redis_down ''k1'' t \<noteq> None"
    by blast
  from Verify_last_used_write_failure_fatal [OF h1 h2 h3 h4 h5] h1 h2 h3 h4 p
  show ?thesis by simp
qed

subsection \<open>The backing store and the local cache\<close>

text \<open>
  C8. When the local cache answers with an error and the backing store's Get does too,
  \<open>Verify\<close> fails with NotFound: the error of line 73, whose message names the
  identifier and which wraps the store's error. The run consists of the two Gets, so
  there is no comparison and no last-used write, and the last-used entries are as they
  were.
\<close>

theorem Verify_store_miss_not_found:
  assumes "ExtractAPIKeyID w key = Inr keyID"
    and "apiKeyCache w keyID = Inl ce"
    and "apiKeyStore w keyID = Inl e"
  shows "fst (Verify w key) = Inl (errNotFound keyID e)
     \<and> unwrap (errNotFound keyID e) = Some e
     \<and> msg (errNotFound keyID e)
         = ''unable to find API key '' @ keyID @ '' from datastore, '' @ msg e
     \<and> new_calls w key = [CacheGet keyID, StoreGet keyID]
     \<and> apiKeyLastUsedCache (snd (Verify w key)) = apiKeyLastUsedCache w"
  using assms
  by (simp add: ops new_calls_def errNotFound_def)

theorem Verify_store_miss_not_found_witness:
  "ExtractAPIKeyID scenario ''k2.s3cr3t'' = Inr ''k2''
   \<and> apiKeyCache scenario ''k2'' = Inl (errors_New ''not found'')
   \<and> apiKeyStore scenario ''k2'' = Inl (errors_New ''not found'')
   \<and> fst (Verify scenario ''k2.s3cr3t'')
       = Inl (Error ''unable to find API key k2 from datastore, not found''
               (Some (Error ''not found'' None)))
   \<and> new_calls scenario ''k2.s3cr3t'' = [CacheGet ''k2'', StoreGet ''k2'']"
proof -
  have h2: "apiKeyCache scenario ''k2'' = Inl (errors_New ''not found'')"
    by (simp add: scenarios)
  from Verify_store_miss_not_found [OF scenario_facts(3) h2 scenario_facts(10)]
       scenario_facts(3) h2 scenario_facts(10)
  show ?thesis by (simp add: errNotFound_def errors_New_def)
qed

text \<open>
  C6, as stated: a call that misses the local cache, fetches a valid record and has the
  write-back fail still succeeds. Where the distributed cache rejects the last-used write
  as well, the call fails, with the error of line 98, although the record is valid and
  the only other failure is the write-back's.
\<close>

theorem Verify_writeback_failure_counterexample:
  "ExtractAPIKeyID scenario_both_down ''k1.s3cr3t'' = Inr ''k1''
   \<and> apiKeyCache scenario_both_down ''k1'' = Inl (errors_New ''not found'')
   \<and> apiKeyStore scenario_both_down ''k1'' = Inr rec_k1
   \<and> \<not> Disabled rec_k1
   \<and> CompareKey scenario_both_down rec_k1 ''k1.s3cr3t'' = None
   \<and> apiKeyCachePutErr scenario_both_down ''k1'' rec_k1 = Some (errors_New ''cache full'')
   \<and> fst (Verify scenario_both_down ''k1.s3cr3t'')
       = Inl (errLastUsedWrite ''k1'' (errors_New ''redis down''))
   \<and> fst (Verify scenario_both_down ''k1.s3cr3t'') \<noteq> Inr rec_k1"
  by (simp add: ops scenarios errors_New_def Let_def)

text \<open>
  C6, amended: a call that misses the local cache, fetches from the backing store a
  record that is not disabled and whose comparison accepts the raw key, and has the
  write-back to the local cache fail, goes on: the failure is reported to the logger and
  nowhere else, the comparison and the last-used write are made, and when the
  distributed cache accepts that write the call returns the record and the last-used
  entry is set.
\<close>

theorem Verify_writeback_failure_nonfatal:
  assumes "ExtractAPIKeyID w key = Inr keyID"
    and "apiKeyCache w keyID = Inl ce"
    and "apiKeyStore w keyID = Inr k"
    and "\<not> Disabled k"
    and "CompareKey w k key = None"
    and "apiKeyCachePutErr w keyID k = Some pe"
  shows "\<exists>t. clock w \<le> t
     \<and> new_calls w key =
         [CacheGet keyID, StoreGet keyID, CachePut keyID k,
          LoggerWarn ''unable to store API key in memory cache'' pe,
          CompareKeyCall k key, LastUsedPut keyID t]
     \<and> (apiKeyLastUsedCachePutErr w keyID t = None \<longrightarrow>
          fst (Verify w key) = Inr k
          \<and> apiKeyLastUsedCache (snd (Verify w key)) keyID = Some t)"
proof -
  let ?m = "LoggerWarn ''unable to store API key in memory cache'' pe"
  let ?t = "clock w + int (latency w (CacheGet keyID)) + int (latency w (StoreGet keyID))
             + int (latency w (CachePut keyID k)) + int (latency w ?m)
             + int (latency w (CompareKeyCall k key))"
  show ?thesis
    apply (rule exI [of _ ?t])
    using assms
    by (simp add: ops new_calls_def Let_def split: option.splits)
qed

theorem Verify_writeback_failure_nonfatal_witness:
  "ExtractAPIKeyID scenario_cache_full ''k1.s3cr3t'' = Inr ''k1''
   \<and> apiKeyCache scenario_cache_full ''k1'' = Inl (errors_New ''not found'')
   \<and> apiKeyStore scenario_cache_full ''k1'' = Inr rec_k1
   \<and> \<not> Disabled rec_k1
   \<and> CompareKey scenario_cache_full rec_k1 ''k1.s3cr3t'' = None
   \<and> apiKeyCachePutErr scenario_cache_full ''k1'' rec_k1 = Some (errors_New ''cache full'')
   \<and> (\<forall>t. apiKeyLastUsedCachePutErr scenario_cache_full ''k1'' t = None)
   \<and> (\<exists>t. 1000 \<le> t
        \<and> new_calls scenario_cache_full ''k1.s3cr3t'' =
            [CacheGet ''k1'', StoreGet ''k1'', CachePut ''k1'' rec_k1,
             LoggerWarn ''unable to store API key in memory cache'' (errors_New ''cache full''),
             CompareKeyCall rec_k1 ''k1.s3cr3t'', LastUsedPut ''k1'' t]
        \<and> fst (Verify scenario_cache_full ''k1.s3cr3t'') = Inr rec_k1
        \<and> apiKeyLastUsedCache (snd (Verify scenario_cache_full ''k1.s3cr3t'')) ''k1'' = Some t)"
proof -
  have h1: "ExtractAPIKeyID scenario_cache_full ''k1.s3cr3t'' = Inr ''k1''"
    by (simp add: scenarios)
  have h2: "apiKeyCache scenario_cache_full ''k1'' = Inl (errors_New ''not found'')"
    by (simp add: scenarios)
  have h3: "apiKeyStore scenario_cache_full ''k1'' = Inr rec_k1"
    by (simp add: scenarios)
  have h4: "\<not> Disabled rec_k1"
    by (simp add: scenarios)
  have h5: "CompareKey scenario_cache_full rec_k1 ''k1.s3cr3t'' = None"
    by (simp add: scenarios)
  have h6: "apiKeyCachePutErr scenario_cache_full ''k1'' rec_k1 = Some (errors_New ''cache full'')"
    by (simp add: scenarios)
  have p: "\<forall>t. apiKeyLastUsedCachePutErr scenario_cache_full ''k1'' t = None"
    by (simp add: scenarios)
  have c: "clock scenario_cache_full = 1000"
    by (simp add: scenarios)
  have r: "\<exists>t. 1000 \<le> t
        \<and> new_calls scenario_cache_full ''k1.s3cr3t'' =
            [CacheGet ''k1'', StoreGet ''k1'', CachePut ''k1'' rec_k1,
             LoggerWarn ''unable to store API key in memory cache'' (errors_New ''cache full''),
             CompareKeyCall rec_k1 ''k1.s3cr3t'', LastUsedPut ''k1'' t]
        \<and> fst (Verify scenario_cache_full ''k1.s3cr3t'') = Inr rec_k1
        \<and> apiKeyLastUsedCache (snd (Verify scenario_cache_full ''k1.s3cr3t'')) ''k1'' = Some t"
    using Verify_writeback_failure_nonfatal [OF h1 h2 h3 h4 h5 h6]
    unfolding c
    by (elim exE conjE) (intro exI conjI, assumption, assumption, (simp only: p)+)
  show ?thesis
    by (intro conjI h1 h2 h3 h4 h5 h6 p r)
qed

text \<open>
  C10. When the local cache's Get answers with an error, whichever error it is,
  \<open>Verify\<close> goes on to the backing store: the run starts with the cache's Get followed
  by the store's Get, the result, the calls and the last-used entries are the same as
  for any other error \<open>e'\<close> the cache could have answered with (a plain not-found
  among them), and a record of the store that is not disabled, whose comparison accepts
  the raw key and whose last-used write is accepted, is returned.
\<close>

theorem Verify_cache_error_is_miss:
  assumes "ExtractAPIKeyID w key = Inr keyID"
    and "apiKeyCache w keyID = Inl e"
  shows "take 2 (new_calls w key) = [CacheGet keyID, StoreGet keyID]
     \<and> fst (Verify (w\<lparr>apiKeyCache := (apiKeyCache w)(keyID := Inl e')\<rparr>) key) = fst (Verify w key)
     \<and> new_calls (w\<lparr>apiKeyCache := (apiKeyCache w)(keyID := Inl e')\<rparr>) key = new_calls w key
     \<and> apiKeyLastUsedCache (snd (Verify (w\<lparr>apiKeyCache := (apiKeyCache w)(keyID := Inl e')\<rparr>) key))
         = apiKeyLastUsedCache (snd (Verify w key))
     \<and> (\<forall>k. apiKeyStore w keyID = Inr k \<and> \<not> Disabled k \<and> CompareKey w k key = None
              \<and> (\<forall>t. apiKeyLastUsedCachePutErr w keyID t = None)
            \<longrightarrow> fst (Verify w key) = Inr k)"
proof (intro conjI)
  show "take 2 (new_calls w key) = [CacheGet keyID, StoreGet keyID]"
    using assms
    by (simp add: ops new_calls_def Let_def split: sum.splits option.splits)
  show "fst (Verify (w\<lparr>apiKeyCache := (apiKeyCache w)(keyID := Inl e')\<rparr>) key) = fst (Verify w key)"
    using assms
    by (simp add: ops Let_def split: sum.splits option.splits)
  show "new_calls (w\<lparr>apiKeyCache := (apiKeyCache w)(keyID := Inl e')\<rparr>) key = new_calls w key"
    using assms
    by (simp add: ops new_calls_def Let_def split: sum.splits option.splits)
  show "apiKeyLastUsedCache (snd (Verify (w\<lparr>apiKeyCache := (apiKeyCache w)(keyID := Inl e')\<rparr>) key))
         = apiKeyLastUsedCache (snd (Verify w key))"
    using assms
    by (simp add: ops Let_def split: sum.splits option.splits)
  show "\<forall>k. apiKeyStore w keyID = Inr k \<and> \<not> Disabled k \<and> CompareKey w k key = None
              \<and> (\<forall>t. apiKeyLastUsedCachePutErr w keyID t = None)
            \<longrightarrow> fst (Verify w key) = Inr k"
    using assms
    by (simp add: ops Let_def split: sum.splits option.splits)
qed

theorem Verify_cache_error_is_miss_witness:
  "ExtractAPIKeyID scenario_cache_broken ''k1.s3cr3t'' = Inr ''k1''
   \<and> apiKeyCache scenario_cache_broken ''k1'' = Inl (errors_New ''type mismatch'')
   \<and> apiKeyStore scenario_cache_broken ''k1'' = Inr rec_k1
   \<and> \<not> Disabled rec_k1
   \<and> CompareKey scenario_cache_broken rec_k1 ''k1.s3cr3t'' = None
   \<and> (\<forall>t. apiKeyLastUsedCachePutErr scenario_cache_broken ''k1'' t = None)
   \<and> take 2 (new_calls scenario_cache_broken ''k1.s3cr3t'') = [CacheGet ''k1'', StoreGet ''k1'']
   \<and> fst (Verify scenario_cache_broken ''k1.s3cr3t'') = Inr rec_k1"
proof -
  have h1: "ExtractAPIKeyID scenario_cache_broken ''k1.s3cr3t'' = Inr ''k1''"
    by (simp add: scenarios)
  have h2: "apiKeyCache scenario_cache_broken ''k1'' = Inl (errors_New ''type mismatch'')"
    by (simp add: scenarios)
  have h3: "apiKeyStore scenario_cache_broken ''k1'' = Inr rec_k1"
    by (simp add: scenarios)
  have h4: "\<not> Disabled rec_k1"
    by (simp add: scenarios)
  have h5: "CompareKey scenario_cache_broken rec_k1 ''k1.s3cr3t'' = None"
    by (simp add: scenarios)
  have p: "\<forall>t. apiKeyLastUsedCachePutErr scenario_cache_broken ''k1'' t = None"
    by (simp add: scenarios)
  note t = Verify_cache_error_is_miss [OF h1 h2, of "errors_New ''not found''"]
  from t have a: "take 2 (new_calls scenario_cache_broken ''k1.s3cr3t'')
      = [CacheGet ''k1'', StoreGet ''k1'']"
    by (elim conjE)
  from t have "\<forall>k. apiKeyStore scenario_cache_broken ''k1'' = Inr k \<and> \<not> Disabled k
        \<and> CompareKey scenario_cache_broken k ''k1.s3cr3t'' = None
        \<and> (\<forall>t. apiKeyLastUsedCachePutErr scenario_cache_broken ''k1'' t = None)
      \<longrightarrow> fst (Verify scenario_cache_broken ''k1.s3cr3t'') = Inr k"
    by (elim conjE)
  then have b: "fst (Verify scenario_cache_broken ''k1.s3cr3t'') = Inr rec_k1"
    using h3 h4 h5 p by (elim allE [of _ rec_k1]) (erule mp, intro conjI)
  show ?thesis
    by (intro conjI h1 h2 h3 h4 h5 p a b)
qed

section \<open>Properties of the snapshot reader\<close>

lemma applicationLiveStatePath_inject:
  "applicationLiveStatePath a = applicationLiveStatePath b \<longleftrightarrow> a = b"
  by (simp add: applicationLiveStatePath_def)

text \<open>
  C9. For every application identifier and every snapshot, the reader's Put returns an
  error, the one made by \<^verbatim>\<open>errors.New("unimplemented")\<close>, and leaves the blob store
  as it was: no call is made on it, so nothing is written. Its Get makes one call on the
  blob store, a GetObject at the path \<^verbatim>\<open>application-live-state/<id>.json\<close>, and
  answers with that call's error, or else with what unmarshalling the object's content
  gives; the path is determined by the identifier, and two identifiers share a path only
  when they are equal.
\<close>

theorem filestore_Put_unimplemented_Get_reads_path:
  "filestore_Put f applicationID alss = (Some (errors_New ''unimplemented''), f)
   \<and> fst (filestore_Put f applicationID alss) \<noteq> None
   \<and> backend_calls (snd (filestore_Put f applicationID alss)) = backend_calls f
   \<and> \<not> list_ex is_PutObject
         (drop (length (backend_calls f)) (backend_calls (snd (filestore_Put f applicationID alss))))
   \<and> backend_calls (snd (filestore_Get json_Unmarshal f applicationID))
       = backend_calls f @ [GetObject (applicationLiveStatePath applicationID)]
   \<and> backend (snd (filestore_Get json_Unmarshal f applicationID)) = backend f
   \<and> fst (filestore_Get json_Unmarshal f applicationID)
       = (case backend f (applicationLiveStatePath applicationID) of
            Inl err \<Rightarrow> Inl err
          | Inr obj \<Rightarrow> json_Unmarshal (Content obj))
   \<and> applicationLiveStatePath applicationID
       = ''application-live-state/'' @ applicationID @ ''.json''
   \<and> (applicationLiveStatePath applicationID = applicationLiveStatePath applicationID'
        \<longleftrightarrow> applicationID = applicationID')"
proof (intro conjI)
  show "filestore_Put f applicationID alss = (Some (errors_New ''unimplemented''), f)"
    by (simp add: filestore_Put_def)
  show "fst (filestore_Put f applicationID alss) \<noteq> None"
    by (simp add: filestore_Put_def)
  show "backend_calls (snd (filestore_Put f applicationID alss)) = backend_calls f"
    by (simp add: filestore_Put_def)
  show "\<not> list_ex is_PutObject
         (drop (length (backend_calls f)) (backend_calls (snd (filestore_Put f applicationID alss))))"
    by (simp add: filestore_Put_def)
  show "backend_calls (snd (filestore_Get json_Unmarshal f applicationID))
       = backend_calls f @ [GetObject (applicationLiveStatePath applicationID)]"
    by (simp add: filestore_Get_def backend_GetObject_def Let_def split: sum.splits)
  show "backend (snd (filestore_Get json_Unmarshal f applicationID)) = backend f"
    by (simp add: filestore_Get_def backend_GetObject_def Let_def split: sum.splits)
  show "fst (filestore_Get json_Unmarshal f applicationID)
       = (case backend f (applicationLiveStatePath applicationID) of
            Inl err \<Rightarrow> Inl err
          | Inr obj \<Rightarrow> json_Unmarshal (Content obj))"
    by (simp add: filestore_Get_def backend_GetObject_def Let_def split: sum.splits)
  show "applicationLiveStatePath applicationID
       = ''application-live-state/'' @ applicationID @ ''.json''"
    by (simp add: applicationLiveStatePath_def)
  show "applicationLiveStatePath applicationID = applicationLiveStatePath applicationID'
        \<longleftrightarrow> applicationID = applicationID'"
    by (rule applicationLiveStatePath_inject)
qed

theorem filestore_Put_unimplemented_Get_reads_path_witness:
  "filestore_Put blobs ''app-1'' ''snapshot'' = (Some (Error ''unimplemented'' None), blobs)
   \<and> backend_calls (snd (filestore_Put blobs ''app-1'' ''snapshot'')) = []
   \<and> backend_calls (snd (filestore_Get (Inr :: string \<Rightarrow> error + string) blobs ''app-1''))
       = [GetObject ''application-live-state/app-1.json'']
   \<and> fst (filestore_Get (Inr :: string \<Rightarrow> error + string) blobs ''app-1'') = Inr ''{}''
   \<and> fst (filestore_Get (Inr :: string \<Rightarrow> error + string) blobs ''app-2'')
       = Inl (Error ''object not found'' None)"
  using filestore_Put_unimplemented_Get_reads_path
          [of blobs "''app-1''" "''snapshot''" "Inr :: string \<Rightarrow> error + string" "''app-2''"]
        filestore_Put_unimplemented_Get_reads_path
          [of blobs "''app-2''" "''snapshot''" "Inr :: string \<Rightarrow> error + string" "''app-1''"]
  by (simp add: blobs_def errors_New_def)

end
